theory Spec2Isabelle
  imports Main "HOL-Library.Sublist"
begin

section \<open>Component discovery of the StoneWork client (package client)\<close>

text \<open>
  The development embeds \<^verbatim>\<open>Client.StatusInfo\<close>, \<^verbatim>\<open>Client.GetComponents\<close> and
  \<^verbatim>\<open>containsPrefix\<close> of the client package. Functions of Go's standard library and of
  other packages (the HTTP transport, the JSON decoder, the Docker client, the constructor of
  the agent client, \<^verbatim>\<open>cnfModeToCompoMode\<close>) are parameters, collected in the record
  \<open>deps\<close>. A call with an effect outside the process takes a world of type \<open>'w\<close> and
  returns the next one. A Go result pair (value, error) whose value the code fills also on
  the error path is a pair with an \<open>error option\<close>; a nil slice is the empty list. The
  context that \<^verbatim>\<open>GetComponents\<close> creates and cancels on return is not modelled.
\<close>

subsection \<open>Errors\<close>

text \<open>
  A Go error is either a value produced by a collaborator or the result of
  \<^verbatim>\<open>fmt.Errorf("<msg>: %w", err)\<close>, which wraps its cause.
\<close>

datatype error = ErrorString string | Errorf string error

fun Unwrap :: "error \<Rightarrow> error option" where
  "Unwrap (ErrorString s) = None"
| "Unwrap (Errorf msg err) = Some err"

subsection \<open>Data\<close>

text \<open>
  Modelled from the spec: \<^verbatim>\<open>cnfreg.Info\<close> is declared outside the examined files; the
  fields are the four the code reads (label, mode indicator, management IP address,
  management port).
\<close>

record Info =
  MsLabel :: string
  CnfMode :: string
  IPAddr :: string
  HTTPPort :: int

text \<open>The zero value that a failed Go map lookup yields.\<close>

definition zero_Info :: Info where
  "zero_Info = \<lparr>MsLabel = [], CnfMode = [], IPAddr = [], HTTPPort = 0\<rparr>"

text \<open>
  The parts of \<^verbatim>\<open>docker.Container\<close> that the code reads; an inspected container has
  its \<open>Config\<close> and its \<open>NetworkSettings\<close>. \<open>Networks\<close> is a Go map: it takes the
  name of a network to the IP address of the container in that network, and has no order.
\<close>

record Config =
  Labels :: "string \<rightharpoonup> string"
  Env :: "string list"
  Image :: string

record NetworkSettings =
  IPAddress :: string
  Networks :: "string \<rightharpoonup> string"

record Container =
  ID :: string
  Name :: string
  Config :: Config
  NetworkSettings :: NetworkSettings

text \<open>
  Modelled from the spec: the \<^verbatim>\<open>ComponentMode\<close> constants are declared outside the
  examined files; a managed mode carries the name of its sub-mode.
\<close>

datatype ComponentMode = ComponentAuxiliary | ComponentStandalone | ComponentManaged string

text \<open>The struct \<^verbatim>\<open>component\<close>; \<open>'h\<close> is the type of agent clients.\<close>

record 'h component =
  Name :: string
  Mode :: ComponentMode
  Info :: "Info option"
  Metadata :: "string \<rightharpoonup> string"
  agentclient :: "'h option"

text \<open>
  The collaborators. \<open>http_get\<close> is \<^verbatim>\<open>c.get(ctx, path, nil, nil)\<close> and returns the
  response body, \<open>json_decode\<close> is the decoding of a body into a slice of
  \<^verbatim>\<open>cnfreg.Info\<close>, \<open>ListContainers\<close> returns the IDs of the listed containers.
  \<open>range_Networks\<close> is the Go runtime: the sequence of (network name, IP address) entries
  in which a \<^verbatim>\<open>range\<close> statement visits a map of networks. Go leaves that order
  unspecified and varies it between executions, so it is an input of the model and not a
  property of the map; the runtime visits every entry of the map once.
\<close>

record ('w, 'h) deps =
  http_get :: "string \<Rightarrow> 'w \<Rightarrow> (error + string) \<times> 'w"
  json_decode :: "string \<Rightarrow> error + Info list"
  ListContainers :: "'w \<Rightarrow> (error + string list) \<times> 'w"
  InspectContainerWithOptions :: "string \<Rightarrow> 'w \<Rightarrow> (error + Container) \<times> 'w"
  NewClientWithOpts :: "string \<Rightarrow> int \<Rightarrow> error + 'h"
  cnfModeToCompoMode :: "string \<Rightarrow> ComponentMode"
  range_Networks :: "(string \<rightharpoonup> string) \<Rightarrow> (string \<times> string) list"

definition DockerComposeServiceLabel :: string where
  "DockerComposeServiceLabel = ''com.docker.compose.service''"

text \<open>Reading a Go map of strings: a missing key reads as the empty string.\<close>

definition lookup :: "(string \<rightharpoonup> string) \<Rightarrow> string \<Rightarrow> string" where
  "lookup m k = (case m k of None \<Rightarrow> [] | Some v \<Rightarrow> v)"

subsection \<open>containsPrefix\<close>

definition HasPrefix :: "string \<Rightarrow> string \<Rightarrow> bool" where
  "HasPrefix s p = prefix p s"

definition TrimPrefix :: "string \<Rightarrow> string \<Rightarrow> string" where
  "TrimPrefix s p = (if HasPrefix s p then drop (length p) s else s)"

fun containsPrefix :: "string list \<Rightarrow> string \<Rightarrow> string \<times> bool" where
  "containsPrefix [] p = ([], False)"
| "containsPrefix (str # strs) p =
     (let found = HasPrefix str p
      in if found then (TrimPrefix str p, found) else containsPrefix strs p)"

subsection \<open>StatusInfo\<close>

definition StatusInfo :: "('w, 'h) deps \<Rightarrow> 'w \<Rightarrow> (Info list \<times> error option) \<times> 'w" where
  "StatusInfo c w =
     (case http_get c ''/status/info'' w of
        (Inl err, w') \<Rightarrow> (([], Some (Errorf ''HTTP request failed'' err)), w')
      | (Inr body, w') \<Rightarrow>
          (case json_decode c body of
             Inl err \<Rightarrow> (([], Some (Errorf ''decoding reply failed'' err)), w')
           | Inr infos \<Rightarrow> ((infos, None), w')))"

subsection \<open>GetComponents\<close>

text \<open>The loop that inspects every listed container.\<close>

fun inspect_loop ::
  "('w, 'h) deps \<Rightarrow> string list \<Rightarrow> Container list \<Rightarrow> 'w \<Rightarrow> (error + Container list) \<times> 'w"
where
  "inspect_loop c [] containers w = (Inr containers, w)"
| "inspect_loop c (cid # rest) containers w =
     (case InspectContainerWithOptions c cid w of
        (Inl err, w') \<Rightarrow> (Inl err, w')
      | (Inr cont, w') \<Rightarrow> inspect_loop c rest (containers @ [cont]) w')"

text \<open>The loop that fills the table \<^verbatim>\<open>cnfInfos\<close>.\<close>

fun cnfInfos_loop :: "Info list \<Rightarrow> (string \<rightharpoonup> Info) \<Rightarrow> (string \<rightharpoonup> Info)" where
  "cnfInfos_loop [] cnfInfos = cnfInfos"
| "cnfInfos_loop (info # infos) cnfInfos = cnfInfos_loop infos (cnfInfos(MsLabel info \<mapsto> info))"

text \<open>
  The loop over the networks of a container, left at the first non-empty address; its
  first argument is the sequence of entries in which the runtime visits the map.
\<close>

fun networks_loop :: "(string \<times> string) list \<Rightarrow> (string \<rightharpoonup> string) \<Rightarrow> (string \<rightharpoonup> string)" where
  "networks_loop [] metadata = metadata"
| "networks_loop ((name, ip) # rest) metadata =
     (if ip \<noteq> [] then metadata(''containerIPAddress'' \<mapsto> ip) else networks_loop rest metadata)"

definition container_metadata :: "('w, 'h) deps \<Rightarrow> Container \<Rightarrow> (string \<rightharpoonup> string)" where
  "container_metadata c container =
     (let metadata = Map.empty;
          metadata = metadata(''containerID'' \<mapsto> ID container);
          metadata = metadata(''containerName'' \<mapsto> Container.Name container);
          metadata = metadata(''containerServiceName'' \<mapsto>
                       lookup (Labels (Config container)) DockerComposeServiceLabel);
          metadata = metadata(''dockerImage'' \<mapsto> Image (Config container))
      in if IPAddress (NetworkSettings container) \<noteq> []
         then metadata(''containerIPAddress'' \<mapsto> IPAddress (NetworkSettings container))
         else networks_loop (range_Networks c (Networks (NetworkSettings container))) metadata)"

text \<open>
  The body of the loop over the inspected containers: \<open>Inr compo\<close> when the body reaches
  \<^verbatim>\<open>components = append(components, compo)\<close>, \<open>Inl err\<close> when it returns \<open>err\<close>.
\<close>

definition component_body ::
  "('w, 'h) deps \<Rightarrow> (string \<rightharpoonup> Info) \<Rightarrow> Container \<Rightarrow> error + 'h component"
where
  "component_body c cnfInfos container =
     (let metadata = container_metadata c container;
          (after, found) = containsPrefix (Env (Config container)) ''MICROSERVICE_LABEL=''
      in if \<not> found
         then Inr \<lparr>Name = lookup (Labels (Config container)) DockerComposeServiceLabel,
                   Mode = ComponentAuxiliary, Info = None, Metadata = metadata,
                   agentclient = None\<rparr>
         else
           let (info, ok) = (case cnfInfos after of
                               Some i \<Rightarrow> (i, True)
                             | None \<Rightarrow> (zero_Info, False));
               compo = (if ok
                        then \<lparr>Name = MsLabel info, Mode = cnfModeToCompoMode c (CnfMode info),
                              Info = Some info, Metadata = metadata, agentclient = None\<rparr>
                        else \<lparr>Name = lookup (Labels (Config container)) DockerComposeServiceLabel,
                              Mode = ComponentStandalone, Info = None, Metadata = metadata,
                              agentclient = None\<rparr>)
           in case NewClientWithOpts c (IPAddr info) (HTTPPort info) of
                Inl err \<Rightarrow> Inl err
              | Inr client \<Rightarrow> Inr (compo\<lparr>agentclient := Some client\<rparr>))"

fun components_loop ::
  "('w, 'h) deps \<Rightarrow> (string \<rightharpoonup> Info) \<Rightarrow> Container list \<Rightarrow> 'h component list
     \<Rightarrow> 'h component list \<times> error option"
where
  "components_loop c cnfInfos [] components = (components, None)"
| "components_loop c cnfInfos (container # rest) components =
     (case component_body c cnfInfos container of
        Inl err \<Rightarrow> (components, Some err)
      | Inr compo \<Rightarrow> components_loop c cnfInfos rest (components @ [compo]))"

definition GetComponents ::
  "('w, 'h) deps \<Rightarrow> 'w \<Rightarrow> ('h component list \<times> error option) \<times> 'w"
where
  "GetComponents c w =
     (case StatusInfo c w of
        ((infos, Some err), w1) \<Rightarrow> (([], Some err), w1)
      | ((infos, None), w1) \<Rightarrow>
          (case ListContainers c w1 of
             (Inl err, w2) \<Rightarrow> (([], Some err), w2)
           | (Inr containerInfo, w2) \<Rightarrow>
               (case inspect_loop c containerInfo [] w2 of
                  (Inl err, w3) \<Rightarrow> (([], Some err), w3)
                | (Inr containers, w3) \<Rightarrow>
                    (components_loop c (cnfInfos_loop infos Map.empty) containers [], w3))))"

text \<open>
  The values of the local variables \<^verbatim>\<open>infos\<close> and \<^verbatim>\<open>containers\<close> when the loop over
  the containers starts; \<open>None\<close> when the call has returned before.
\<close>

definition discovery_inputs :: "('w, 'h) deps \<Rightarrow> 'w \<Rightarrow> (Info list \<times> Container list) option" where
  "discovery_inputs c w =
     (case StatusInfo c w of
        ((infos, Some err), w1) \<Rightarrow> None
      | ((infos, None), w1) \<Rightarrow>
          (case ListContainers c w1 of
             (Inl err, w2) \<Rightarrow> None
           | (Inr containerInfo, w2) \<Rightarrow>
               (case inspect_loop c containerInfo [] w2 of
                  (Inl err, w3) \<Rightarrow> None
                | (Inr containers, w3) \<Rightarrow> Some (infos, containers))))"

text \<open>
  The value of the local variable \<^verbatim>\<open>containerInfo\<close> (the IDs of the listed
  containers) when the loop that inspects them starts.
\<close>

definition listed_containers :: "('w, 'h) deps \<Rightarrow> 'w \<Rightarrow> string list option" where
  "listed_containers c w =
     (case StatusInfo c w of
        ((infos, Some err), w1) \<Rightarrow> None
      | ((infos, None), w1) \<Rightarrow>
          (case ListContainers c w1 of
             (Inl err, w2) \<Rightarrow> None
           | (Inr containerInfo, w2) \<Rightarrow> Some containerInfo))"

subsection \<open>A fleet of three containers\<close>

text \<open>
  One auxiliary container, one container registered under the label \<open>cnf1\<close> (the status
  endpoint reports that label twice) and one container whose label \<open>solo\<close> is not
  registered. The world is the log of the calls made so far; the agent client built for a
  host and a port is that pair. \<open>visit names\<close> is a runtime that visits the networks of a
  map in the order of \<open>names\<close>.
\<close>

definition visit :: "string list \<Rightarrow> (string \<rightharpoonup> string) \<Rightarrow> (string \<times> string) list" where
  "visit names networks = List.map_filter (\<lambda>name. map_option (Pair name) (networks name)) names"

definition fleet_infos :: "Info list" where
  "fleet_infos =
     [\<lparr>MsLabel = ''cnf1'', CnfMode = ''standby'', IPAddr = ''10.0.0.4'', HTTPPort = 9190\<rparr>,
      \<lparr>MsLabel = ''cnf1'', CnfMode = ''primary'', IPAddr = ''10.0.0.5'', HTTPPort = 9191\<rparr>]"

definition aux_container :: Container where
  "aux_container =
     \<lparr>ID = ''c0'', Name = ''/db'',
      Config = \<lparr>Labels = [DockerComposeServiceLabel \<mapsto> ''db-svc''],
                Env = [''PATH=/bin''], Image = ''postgres''\<rparr>,
      NetworkSettings = \<lparr>IPAddress = ''172.17.0.2'', Networks = map_of [(''bridge'', ''172.17.0.3'')]\<rparr>\<rparr>"

definition cnf_container :: Container where
  "cnf_container =
     \<lparr>ID = ''c1'', Name = ''/cnf1'',
      Config = \<lparr>Labels = [DockerComposeServiceLabel \<mapsto> ''cnf1-svc''],
                Env = [''PATH=/bin'', ''MICROSERVICE_LABEL=cnf1'', ''MICROSERVICE_LABEL=solo''],
                Image = ''cnf''\<rparr>,
      NetworkSettings = \<lparr>IPAddress = [],
                         Networks = map_of [(''mgmt'', []), (''data'', ''10.0.0.9''),
                                            (''ext'', ''10.0.0.10'')]\<rparr>\<rparr>"

definition solo_container :: Container where
  "solo_container =
     \<lparr>ID = ''c2'', Name = ''/solo'',
      Config = \<lparr>Labels = [DockerComposeServiceLabel \<mapsto> ''solo-svc''],
                Env = [''MICROSERVICE_LABEL=solo''], Image = ''agent''\<rparr>,
      NetworkSettings = \<lparr>IPAddress = [], Networks = map_of [(''mgmt'', [])]\<rparr>\<rparr>"

definition fleet_containers :: "Container list" where
  "fleet_containers = [aux_container, cnf_container, solo_container]"

definition fleet_deps :: "(string list, string \<times> int) deps" where
  "fleet_deps =
     \<lparr>http_get = (\<lambda>path w. (Inr ''cnf1,cnf1'', w @ [''GET '' @ path])),
      json_decode = (\<lambda>body. if body = ''cnf1,cnf1'' then Inr fleet_infos
                              else Inl (ErrorString ''unexpected end of JSON input'')),
      ListContainers = (\<lambda>w. (Inr [''c0'', ''c1'', ''c2''], w @ [''list''])),
      InspectContainerWithOptions = (\<lambda>cid w.
        (if cid = ''c0'' then Inr aux_container
         else if cid = ''c1'' then Inr cnf_container
         else if cid = ''c2'' then Inr solo_container
         else Inl (ErrorString ''no such container''), w @ [''inspect '' @ cid])),
      NewClientWithOpts = (\<lambda>host port. Inr (host, port)),
      cnfModeToCompoMode = ComponentManaged,
      range_Networks = visit [''bridge'', ''mgmt'', ''data'', ''ext'']\<rparr>"

definition refusing_deps :: "(string list, string \<times> int) deps" where
  "refusing_deps =
     fleet_deps\<lparr>NewClientWithOpts := (\<lambda>host port. Inl (ErrorString ''bad host''))\<rparr>"

definition unreachable_deps :: "(string list, string \<times> int) deps" where
  "unreachable_deps =
     fleet_deps\<lparr>http_get :=
       (\<lambda>path w. (Inl (ErrorString ''connection refused''), w @ [''GET '' @ path]))\<rparr>"

definition garbled_deps :: "(string list, string \<times> int) deps" where
  "garbled_deps =
     fleet_deps\<lparr>http_get := (\<lambda>path w. (Inr ''[{'', w @ [''GET '' @ path]))\<rparr>"

text \<open>The same fleet under a runtime that visits the networks in another order.\<close>

definition reordered_deps :: "(string list, string \<times> int) deps" where
  "reordered_deps = fleet_deps\<lparr>range_Networks := visit [''ext'', ''data'', ''mgmt'', ''bridge'']\<rparr>"

definition fleet_components :: "(string \<times> int) component list" where
  "fleet_components =
     [\<lparr>Name = ''db-svc'', Mode = ComponentAuxiliary, Info = None,
       Metadata = [''containerID'' \<mapsto> ''c0'', ''containerName'' \<mapsto> ''/db'',
                   ''containerServiceName'' \<mapsto> ''db-svc'', ''dockerImage'' \<mapsto> ''postgres'',
                   ''containerIPAddress'' \<mapsto> ''172.17.0.2''],
       agentclient = None\<rparr>,
      \<lparr>Name = ''cnf1'', Mode = ComponentManaged ''primary'',
       Info = Some \<lparr>MsLabel = ''cnf1'', CnfMode = ''primary'', IPAddr = ''10.0.0.5'',
                    HTTPPort = 9191\<rparr>,
       Metadata = [''containerID'' \<mapsto> ''c1'', ''containerName'' \<mapsto> ''/cnf1'',
                   ''containerServiceName'' \<mapsto> ''cnf1-svc'', ''dockerImage'' \<mapsto> ''cnf'',
                   ''containerIPAddress'' \<mapsto> ''10.0.0.9''],
       agentclient = Some (''10.0.0.5'', 9191)\<rparr>,
      \<lparr>Name = ''solo-svc'', Mode = ComponentStandalone, Info = None,
       Metadata = [''containerID'' \<mapsto> ''c2'', ''containerName'' \<mapsto> ''/solo'',
                   ''containerServiceName'' \<mapsto> ''solo-svc'', ''dockerImage'' \<mapsto> ''agent''],
       agentclient = Some ([], 0)\<rparr>]"

section \<open>Properties\<close>

subsection \<open>The loops\<close>

lemma components_loop_result:
  "components_loop c t cs acc = (comps, err) \<Longrightarrow>
     \<exists>new. comps = acc @ new \<and> length new \<le> length cs \<and>
       (\<forall>i < length new. component_body c t (cs ! i) = Inr (new ! i)) \<and>
       (err = None \<longrightarrow> length new = length cs) \<and>
       (\<forall>e. err = Some e \<longrightarrow>
          length new < length cs \<and> component_body c t (cs ! length new) = Inl e)"
proof (induction cs arbitrary: acc)
  case Nil
  then show ?case by auto
next
  case (Cons container rest)
  show ?case
  proof (cases "component_body c t container")
    case (Inl e)
    with Cons.prems show ?thesis by auto
  next
    case (Inr compo)
    with Cons.prems have "components_loop c t rest (acc @ [compo]) = (comps, err)"
      by simp
    from Cons.IH [OF this] obtain new where
      new: "comps = (acc @ [compo]) @ new" "length new \<le> length rest"
        "\<forall>i < length new. component_body c t (rest ! i) = Inr (new ! i)"
        "err = None \<longrightarrow> length new = length rest"
        "\<forall>e. err = Some e \<longrightarrow>
           length new < length rest \<and> component_body c t (rest ! length new) = Inl e"
      by blast
    have "\<forall>i < length (compo # new).
            component_body c t ((container # rest) ! i) = Inr ((compo # new) ! i)"
      using new(3) Inr by (auto simp: nth_Cons split: nat.splits)
    with new show ?thesis
      by (intro exI [of _ "compo # new"]) auto
  qed
qed

lemma inspect_loop_result:
  "inspect_loop c ids acc w = (Inr containers, w') \<Longrightarrow>
     \<exists>new. containers = acc @ new \<and> length new = length ids \<and>
       (\<forall>i < length ids. \<exists>wi. fst (InspectContainerWithOptions c (ids ! i) wi) = Inr (new ! i))"
proof (induction ids arbitrary: acc w)
  case Nil
  then show ?case by simp
next
  case (Cons cid rest)
  obtain r w1 where step: "InspectContainerWithOptions c cid w = (r, w1)"
    by (cases "InspectContainerWithOptions c cid w")
  show ?case
  proof (cases r)
    case (Inl e)
    with Cons.prems step show ?thesis by simp
  next
    case (Inr cont)
    with Cons.prems step have "inspect_loop c rest (acc @ [cont]) w1 = (Inr containers, w')"
      by simp
    from Cons.IH [OF this] obtain new where
      new: "containers = (acc @ [cont]) @ new" "length new = length rest"
        "\<forall>i < length rest. \<exists>wi. fst (InspectContainerWithOptions c (rest ! i) wi) = Inr (new ! i)"
      by blast
    from step Inr have first: "fst (InspectContainerWithOptions c cid w) = Inr cont"
      by simp
    have "\<exists>wi. fst (InspectContainerWithOptions c ((cid # rest) ! i) wi) = Inr ((cont # new) ! i)"
      if "i < length (cid # rest)" for i
    proof (cases i)
      case 0
      with first show ?thesis by auto
    next
      case (Suc j)
      with that new(3) show ?thesis by simp
    qed
    with new(1,2) show ?thesis
      by (intro exI [of _ "cont # new"]) simp
  qed
qed

lemma discovery_inputs_listed:
  assumes "discovery_inputs c w = Some (infos, containers)"
  shows "\<exists>ids. listed_containers c w = Some ids \<and> length containers = length ids \<and>
           (\<forall>i < length ids.
              \<exists>wi. fst (InspectContainerWithOptions c (ids ! i) wi) = Inr (containers ! i))"
proof -
  from assms obtain w1 ids w2 w3 where
    "StatusInfo c w = ((infos, None), w1)" "ListContainers c w1 = (Inr ids, w2)"
    "inspect_loop c ids [] w2 = (Inr containers, w3)"
    by (auto simp: discovery_inputs_def split: prod.splits option.splits sum.splits)
  from this(1,2) inspect_loop_result [OF this(3)] show ?thesis
    by (auto simp: listed_containers_def)
qed

lemma GetComponents_run:
  "discovery_inputs c w = Some (infos, containers) \<Longrightarrow>
     fst (GetComponents c w) = components_loop c (cnfInfos_loop infos Map.empty) containers []"
  by (auto simp: discovery_inputs_def GetComponents_def
           split: prod.splits option.splits sum.splits)

lemma GetComponents_no_inputs:
  "discovery_inputs c w = None \<Longrightarrow> \<exists>e. fst (GetComponents c w) = ([], Some e)"
  by (auto simp: discovery_inputs_def GetComponents_def
           split: prod.splits option.splits sum.splits)

lemma GetComponents_component:
  assumes "discovery_inputs c w = Some (infos, containers)"
    and "fst (GetComponents c w) = (comps, err)"
    and "i < length comps"
  shows "i < length containers \<and>
         component_body c (cnfInfos_loop infos Map.empty) (containers ! i) = Inr (comps ! i)"
proof -
  from assms(1,2) have "components_loop c (cnfInfos_loop infos Map.empty) containers [] = (comps, err)"
    by (simp add: GetComponents_run)
  from components_loop_result [OF this] assms(3) show ?thesis
    by auto
qed

subsection \<open>The run on the fleet\<close>

lemma fleet_inputs: "discovery_inputs fleet_deps [] = Some (fleet_infos, fleet_containers)"
  by (simp add: discovery_inputs_def StatusInfo_def fleet_deps_def fleet_containers_def)

lemma fleet_listed: "listed_containers fleet_deps [] = Some [''c0'', ''c1'', ''c2'']"
  by (simp add: listed_containers_def StatusInfo_def fleet_deps_def)

lemma fleet_table:
  "cnfInfos_loop fleet_infos Map.empty =
     [''cnf1'' \<mapsto> \<lparr>MsLabel = ''cnf1'', CnfMode = ''primary'', IPAddr = ''10.0.0.5'',
                    HTTPPort = 9191\<rparr>]"
  by (simp add: fleet_infos_def)

lemma fleet_aux: "component_body fleet_deps t aux_container = Inr (fleet_components ! 0)"
  by (simp add: component_body_def container_metadata_def aux_container_def fleet_components_def
        HasPrefix_def lookup_def)

lemma fleet_cnf:
  "component_body fleet_deps (cnfInfos_loop fleet_infos Map.empty) cnf_container
     = Inr (fleet_components ! 1)"
  by (simp add: fleet_table component_body_def container_metadata_def cnf_container_def
        fleet_components_def HasPrefix_def TrimPrefix_def lookup_def fleet_deps_def visit_def)

lemma fleet_solo:
  "component_body fleet_deps (cnfInfos_loop fleet_infos Map.empty) solo_container
     = Inr (fleet_components ! 2)"
  by (simp add: fleet_table component_body_def container_metadata_def solo_container_def
        fleet_components_def HasPrefix_def TrimPrefix_def lookup_def fleet_deps_def zero_Info_def
        visit_def)

lemma fleet_run: "fst (GetComponents fleet_deps []) = (fleet_components, None)"
proof -
  have "fleet_components = [fleet_components ! 0, fleet_components ! 1, fleet_components ! 2]"
    by (simp add: fleet_components_def)
  then show ?thesis
    using fleet_aux fleet_cnf fleet_solo
    by (simp add: GetComponents_run [OF fleet_inputs] fleet_containers_def)
qed

subsection \<open>The parts of the loop body\<close>

lemma containsPrefix_not_found:
  "(\<forall>s \<in> set strs. \<not> prefix p s) \<Longrightarrow> containsPrefix strs p = ([], False)"
  by (induction strs) (auto simp: HasPrefix_def)

lemma containsPrefix_first:
  "(\<forall>s \<in> set pre. \<not> prefix p s) \<Longrightarrow> containsPrefix (pre @ (p @ l) # post) p = (l, True)"
  by (induction pre) (auto simp: HasPrefix_def TrimPrefix_def)

lemma networks_loop_find:
  "networks_loop nws m k =
     (case find (\<lambda>ip. ip \<noteq> []) (map snd nws) of
        None \<Rightarrow> m k
      | Some ip \<Rightarrow> if k = ''containerIPAddress'' then Some ip else m k)"
  by (induction nws m rule: networks_loop.induct) auto

lemma find_append_case:
  "find P (xs @ ys) = (case find P xs of None \<Rightarrow> find P ys | Some x \<Rightarrow> Some x)"
  by (induction xs) auto

lemma cnfInfos_loop_last:
  "cnfInfos_loop infos m l =
     (case find (\<lambda>i. MsLabel i = l) (rev infos) of None \<Rightarrow> m l | Some i \<Rightarrow> Some i)"
proof (induction infos arbitrary: m)
  case Nil
  show ?case by simp
next
  case (Cons info infos)
  show ?case
    by (simp add: Cons.IH find_append_case split: option.splits)
qed

lemma component_body_metadata:
  "component_body c t container = Inr compo \<Longrightarrow> Metadata compo = container_metadata c container"
  by (auto simp: component_body_def Let_def split: prod.splits if_splits option.splits sum.splits)

lemma container_metadata_service:
  "container_metadata c container ''containerServiceName''
     = Some (lookup (Labels (Config container)) DockerComposeServiceLabel)"
  by (simp add: container_metadata_def Let_def networks_loop_find split: option.splits)

lemma component_body_matched:
  assumes "containsPrefix (Env (Config container)) ''MICROSERVICE_LABEL='' = (label, True)"
    and "t label = Some e"
    and "component_body c t container = Inr compo"
  shows "Info compo = Some e \<and> Name compo = MsLabel e \<and>
         Mode compo = cnfModeToCompoMode c (CnfMode e) \<and>
         (\<exists>client. NewClientWithOpts c (IPAddr e) (HTTPPort e) = Inr client \<and>
                   agentclient compo = Some client)"
  using assms by (auto simp: component_body_def Let_def split: sum.splits)

lemma component_body_standalone:
  assumes "containsPrefix (Env (Config container)) ''MICROSERVICE_LABEL='' = (label, True)"
    and "t label = None"
    and "component_body c t container = Inr compo"
  shows "Mode compo = ComponentStandalone \<and>
         Name compo = lookup (Labels (Config container)) DockerComposeServiceLabel \<and>
         Info compo = None \<and>
         (\<exists>client. NewClientWithOpts c [] 0 = Inr client \<and> agentclient compo = Some client)"
  using assms by (auto simp: component_body_def Let_def zero_Info_def split: sum.splits)

lemma component_body_auxiliary:
  assumes "containsPrefix (Env (Config container)) ''MICROSERVICE_LABEL='' = (label, False)"
    and "component_body c t container = Inr compo"
  shows "Mode compo = ComponentAuxiliary \<and>
         Name compo = lookup (Labels (Config container)) DockerComposeServiceLabel \<and>
         Info compo = None \<and> agentclient compo = None"
  using assms by (auto simp: component_body_def Let_def)

subsection \<open>Classification\<close>

text \<open>
  C3. A component whose container carries the label variable with a value that the status
  table knows has that entry as info, the entry's label as name, the mapping of the entry's
  mode indicator as mode, and the agent client constructed from the entry's management
  address and port.
\<close>

theorem GetComponents_matched:
  assumes "discovery_inputs c w = Some (infos, containers)"
    and "fst (GetComponents c w) = (comps, err)"
    and "i < length comps"
    and "containsPrefix (Env (Config (containers ! i))) ''MICROSERVICE_LABEL='' = (label, True)"
    and "cnfInfos_loop infos Map.empty label = Some e"
  shows "Info (comps ! i) = Some e \<and> Name (comps ! i) = MsLabel e \<and>
         Mode (comps ! i) = cnfModeToCompoMode c (CnfMode e) \<and>
         (\<exists>client. NewClientWithOpts c (IPAddr e) (HTTPPort e) = Inr client \<and>
                   agentclient (comps ! i) = Some client)"
proof -
  from GetComponents_component [OF assms(1-3)]
  have "component_body c (cnfInfos_loop infos Map.empty) (containers ! i) = Inr (comps ! i)"
    by simp
  from component_body_matched [OF assms(4,5) this] show ?thesis .
qed

theorem GetComponents_matched_witness:
  "discovery_inputs fleet_deps [] = Some (fleet_infos, fleet_containers) \<and>
   fst (GetComponents fleet_deps []) = (fleet_components, None) \<and>
   containsPrefix (Env (Config (fleet_containers ! 1))) ''MICROSERVICE_LABEL='' = (''cnf1'', True) \<and>
   cnfInfos_loop fleet_infos Map.empty ''cnf1'' = Some (fleet_infos ! 1) \<and>
   Info (fleet_components ! 1) = Some (fleet_infos ! 1) \<and>
   Name (fleet_components ! 1) = ''cnf1'' \<and>
   Mode (fleet_components ! 1) = ComponentManaged ''primary'' \<and>
   agentclient (fleet_components ! 1) = Some (''10.0.0.5'', 9191)"
proof -
  have len: "1 < length fleet_components"
    by (simp add: fleet_components_def)
  have env: "containsPrefix (Env (Config (fleet_containers ! 1))) ''MICROSERVICE_LABEL=''
               = (''cnf1'', True)"
    by (simp add: fleet_containers_def cnf_container_def HasPrefix_def TrimPrefix_def)
  have tbl: "cnfInfos_loop fleet_infos Map.empty ''cnf1'' = Some (fleet_infos ! 1)"
    by (simp add: fleet_infos_def)
  from GetComponents_matched [OF fleet_inputs fleet_run len env tbl] fleet_inputs fleet_run env tbl
  show ?thesis
    by (simp add: fleet_infos_def fleet_deps_def)
qed

text \<open>
  C4. A component whose container carries the label variable with a value that the status
  table does not know has mode Standalone, the value of the container's service label as
  name (the value stored under \<open>containerServiceName\<close>), and no info.
\<close>

theorem GetComponents_standalone:
  assumes "discovery_inputs c w = Some (infos, containers)"
    and "fst (GetComponents c w) = (comps, err)"
    and "i < length comps"
    and "containsPrefix (Env (Config (containers ! i))) ''MICROSERVICE_LABEL='' = (label, True)"
    and "cnfInfos_loop infos Map.empty label = None"
  shows "Mode (comps ! i) = ComponentStandalone \<and>
         Name (comps ! i) = lookup (Labels (Config (containers ! i))) DockerComposeServiceLabel \<and>
         Metadata (comps ! i) ''containerServiceName'' = Some (Name (comps ! i)) \<and>
         Info (comps ! i) = None"
proof -
  from GetComponents_component [OF assms(1-3)]
  have body: "component_body c (cnfInfos_loop infos Map.empty) (containers ! i) = Inr (comps ! i)"
    by simp
  from component_body_standalone [OF assms(4,5) body]
  have "Mode (comps ! i) = ComponentStandalone \<and>
      Name (comps ! i) = lookup (Labels (Config (containers ! i))) DockerComposeServiceLabel \<and>
      Info (comps ! i) = None"
    by simp
  with component_body_metadata [OF body] show ?thesis
    by (simp add: container_metadata_service)
qed

theorem GetComponents_standalone_witness:
  "discovery_inputs fleet_deps [] = Some (fleet_infos, fleet_containers) \<and>
   fst (GetComponents fleet_deps []) = (fleet_components, None) \<and>
   containsPrefix (Env (Config (fleet_containers ! 2))) ''MICROSERVICE_LABEL='' = (''solo'', True) \<and>
   cnfInfos_loop fleet_infos Map.empty ''solo'' = None \<and>
   Mode (fleet_components ! 2) = ComponentStandalone \<and>
   Name (fleet_components ! 2) = ''solo-svc'' \<and>
   Metadata (fleet_components ! 2) ''containerServiceName'' = Some ''solo-svc'' \<and>
   Info (fleet_components ! 2) = None"
proof -
  have len: "2 < length fleet_components"
    by (simp add: fleet_components_def)
  have env: "containsPrefix (Env (Config (fleet_containers ! 2))) ''MICROSERVICE_LABEL=''
               = (''solo'', True)"
    by (simp add: fleet_containers_def solo_container_def HasPrefix_def TrimPrefix_def)
  have tbl: "cnfInfos_loop fleet_infos Map.empty ''solo'' = None"
    by (simp add: fleet_infos_def)
  from GetComponents_standalone [OF fleet_inputs fleet_run len env tbl] fleet_inputs fleet_run env tbl
  show ?thesis
    by (simp add: fleet_containers_def solo_container_def lookup_def)
qed

text \<open>
  C5. A component whose container has no environment entry with the prefix
  \<open>MICROSERVICE_LABEL=\<close> has mode Auxiliary, the value of the container's service label
  as name, no info and no agent client, whatever the status table and the rest of the
  container hold.
\<close>

theorem GetComponents_auxiliary:
  assumes "discovery_inputs c w = Some (infos, containers)"
    and "fst (GetComponents c w) = (comps, err)"
    and "i < length comps"
    and "\<forall>s \<in> set (Env (Config (containers ! i))). \<not> prefix ''MICROSERVICE_LABEL='' s"
  shows "Mode (comps ! i) = ComponentAuxiliary \<and>
         Name (comps ! i) = lookup (Labels (Config (containers ! i))) DockerComposeServiceLabel \<and>
         Metadata (comps ! i) ''containerServiceName'' = Some (Name (comps ! i)) \<and>
         Info (comps ! i) = None \<and> agentclient (comps ! i) = None"
proof -
  from GetComponents_component [OF assms(1-3)]
  have body: "component_body c (cnfInfos_loop infos Map.empty) (containers ! i) = Inr (comps ! i)"
    by simp
  from component_body_auxiliary [OF containsPrefix_not_found [OF assms(4)] body]
  have "Mode (comps ! i) = ComponentAuxiliary \<and>
      Name (comps ! i) = lookup (Labels (Config (containers ! i))) DockerComposeServiceLabel \<and>
      Info (comps ! i) = None \<and> agentclient (comps ! i) = None" .
  with component_body_metadata [OF body] show ?thesis
    by (simp add: container_metadata_service)
qed

theorem GetComponents_auxiliary_witness:
  "discovery_inputs fleet_deps [] = Some (fleet_infos, fleet_containers) \<and>
   fst (GetComponents fleet_deps []) = (fleet_components, None) \<and>
   Env (Config (fleet_containers ! 0)) = [''PATH=/bin''] \<and>
   Mode (fleet_components ! 0) = ComponentAuxiliary \<and>
   Name (fleet_components ! 0) = ''db-svc'' \<and>
   Metadata (fleet_components ! 0) ''containerServiceName'' = Some ''db-svc'' \<and>
   Info (fleet_components ! 0) = None \<and> agentclient (fleet_components ! 0) = None"
proof -
  have len: "0 < length fleet_components"
    by (simp add: fleet_components_def)
  have env: "\<forall>s \<in> set (Env (Config (fleet_containers ! 0))). \<not> prefix ''MICROSERVICE_LABEL='' s"
    by (simp add: fleet_containers_def aux_container_def)
  from GetComponents_auxiliary [OF fleet_inputs fleet_run len env] fleet_inputs fleet_run
  show ?thesis
    by (simp add: fleet_containers_def aux_container_def lookup_def)
qed

subsection \<open>Metadata\<close>

lemma find_nonempty_address:
  assumes "map_of order = networks" and "distinct (map fst order)"
  shows "(\<forall>ip. find (\<lambda>ip. ip \<noteq> []) (map snd order) = Some ip \<longrightarrow>
            ip \<noteq> [] \<and> (\<exists>network. networks network = Some ip)) \<and>
         (find (\<lambda>ip. ip \<noteq> []) (map snd order) = None \<longrightarrow>
            (\<forall>network ip. networks network = Some ip \<longrightarrow> ip = []))"
proof (intro conjI allI impI)
  fix ip
  assume "find (\<lambda>ip. ip \<noteq> []) (map snd order) = Some ip"
  then have "ip \<noteq> []" and "ip \<in> set (map snd order)"
    by (auto simp: find_Some_iff)
  then obtain network where "(network, ip) \<in> set order"
    by auto
  with assms have "networks network = Some ip"
    by auto
  then show "\<exists>network. networks network = Some ip" ..
  show "ip \<noteq> []" by fact
next
  fix network ip
  assume none: "find (\<lambda>ip. ip \<noteq> []) (map snd order) = None"
    and "networks network = Some ip"
  with assms(1) have "(network, ip) \<in> set order"
    by (auto dest: map_of_SomeD)
  then have "ip \<in> set (map snd order)"
    by force
  with none show "ip = []"
    by (auto simp: find_None_iff)
qed

text \<open>
  C6, as the code has it. In every component, the metadata key \<open>containerIPAddress\<close> holds
  the primary IP address of the container when that is not empty. Otherwise it holds the
  first non-empty address in the sequence in which the runtime visits the container's
  networks; as the networks are a map and the runtime visits each entry once, that is a
  non-empty address of one of the networks when there is one, and the key is absent when
  there is none. Which address it is, when several networks have one, depends on the
  runtime's order alone.
\<close>

theorem GetComponents_containerIPAddress:
  assumes "discovery_inputs c w = Some (infos, containers)"
    and "fst (GetComponents c w) = (comps, err)"
    and "i < length comps"
    and "map_of (range_Networks c (Networks (NetworkSettings (containers ! i))))
           = Networks (NetworkSettings (containers ! i))"
    and "distinct (map fst (range_Networks c (Networks (NetworkSettings (containers ! i)))))"
  shows "Metadata (comps ! i) ''containerIPAddress'' =
           (if IPAddress (NetworkSettings (containers ! i)) \<noteq> []
            then Some (IPAddress (NetworkSettings (containers ! i)))
            else find (\<lambda>ip. ip \<noteq> [])
                   (map snd (range_Networks c (Networks (NetworkSettings (containers ! i)))))) \<and>
         (IPAddress (NetworkSettings (containers ! i)) = [] \<longrightarrow>
            (\<forall>ip. Metadata (comps ! i) ''containerIPAddress'' = Some ip \<longrightarrow>
               ip \<noteq> [] \<and> (\<exists>network. Networks (NetworkSettings (containers ! i)) network = Some ip)) \<and>
            (Metadata (comps ! i) ''containerIPAddress'' = None \<longrightarrow>
               (\<forall>network ip. Networks (NetworkSettings (containers ! i)) network = Some ip
                  \<longrightarrow> ip = [])))"
proof -
  from GetComponents_component [OF assms(1-3)]
  have "component_body c (cnfInfos_loop infos Map.empty) (containers ! i) = Inr (comps ! i)"
    by simp
  then have "Metadata (comps ! i) = container_metadata c (containers ! i)"
    by (rule component_body_metadata)
  then have address: "Metadata (comps ! i) ''containerIPAddress'' =
           (if IPAddress (NetworkSettings (containers ! i)) \<noteq> []
            then Some (IPAddress (NetworkSettings (containers ! i)))
            else find (\<lambda>ip. ip \<noteq> [])
                   (map snd (range_Networks c (Networks (NetworkSettings (containers ! i))))))"
    by (simp add: container_metadata_def Let_def networks_loop_find split: option.splits)
  show ?thesis
  proof (rule conjI)
    show "Metadata (comps ! i) ''containerIPAddress'' =
           (if IPAddress (NetworkSettings (containers ! i)) \<noteq> []
            then Some (IPAddress (NetworkSettings (containers ! i)))
            else find (\<lambda>ip. ip \<noteq> [])
                   (map snd (range_Networks c (Networks (NetworkSettings (containers ! i))))))"
      by (rule address)
  next
    show "IPAddress (NetworkSettings (containers ! i)) = [] \<longrightarrow>
            (\<forall>ip. Metadata (comps ! i) ''containerIPAddress'' = Some ip \<longrightarrow>
               ip \<noteq> [] \<and> (\<exists>network. Networks (NetworkSettings (containers ! i)) network = Some ip)) \<and>
            (Metadata (comps ! i) ''containerIPAddress'' = None \<longrightarrow>
               (\<forall>network ip. Networks (NetworkSettings (containers ! i)) network = Some ip
                  \<longrightarrow> ip = []))"
    proof (rule impI)
      assume "IPAddress (NetworkSettings (containers ! i)) = []"
      with address have scan: "Metadata (comps ! i) ''containerIPAddress'' =
          find (\<lambda>ip. ip \<noteq> [])
            (map snd (range_Networks c (Networks (NetworkSettings (containers ! i)))))"
        by simp
      from find_nonempty_address [OF assms(4,5)]
      show "(\<forall>ip. Metadata (comps ! i) ''containerIPAddress'' = Some ip \<longrightarrow>
               ip \<noteq> [] \<and> (\<exists>network. Networks (NetworkSettings (containers ! i)) network = Some ip)) \<and>
            (Metadata (comps ! i) ''containerIPAddress'' = None \<longrightarrow>
               (\<forall>network ip. Networks (NetworkSettings (containers ! i)) network = Some ip
                  \<longrightarrow> ip = []))"
        unfolding scan .
    qed
  qed
qed

lemma fleet_visits:
  "range_Networks fleet_deps (Networks (NetworkSettings (fleet_containers ! 0)))
     = [(''bridge'', ''172.17.0.3'')]"
  "range_Networks fleet_deps (Networks (NetworkSettings (fleet_containers ! 1)))
     = [(''mgmt'', []), (''data'', ''10.0.0.9''), (''ext'', ''10.0.0.10'')]"
  "range_Networks fleet_deps (Networks (NetworkSettings (fleet_containers ! 2)))
     = [(''mgmt'', [])]"
  by (simp_all add: fleet_deps_def visit_def fleet_containers_def aux_container_def
        cnf_container_def solo_container_def)

lemma fleet_networks:
  "Networks (NetworkSettings (fleet_containers ! 0)) = map_of [(''bridge'', ''172.17.0.3'')]"
  "Networks (NetworkSettings (fleet_containers ! 1))
     = map_of [(''mgmt'', []), (''data'', ''10.0.0.9''), (''ext'', ''10.0.0.10'')]"
  "Networks (NetworkSettings (fleet_containers ! 2)) = map_of [(''mgmt'', [])]"
  by (simp_all add: fleet_containers_def aux_container_def cnf_container_def
        solo_container_def)

theorem GetComponents_containerIPAddress_witness:
  "discovery_inputs fleet_deps [] = Some (fleet_infos, fleet_containers) \<and>
   fst (GetComponents fleet_deps []) = (fleet_components, None) \<and>
   IPAddress (NetworkSettings (fleet_containers ! 0)) = ''172.17.0.2'' \<and>
   Metadata (fleet_components ! 0) ''containerIPAddress'' = Some ''172.17.0.2'' \<and>
   IPAddress (NetworkSettings (fleet_containers ! 1)) = [] \<and>
   range_Networks fleet_deps (Networks (NetworkSettings (fleet_containers ! 1)))
     = [(''mgmt'', []), (''data'', ''10.0.0.9''), (''ext'', ''10.0.0.10'')] \<and>
   Metadata (fleet_components ! 1) ''containerIPAddress'' = Some ''10.0.0.9'' \<and>
   Networks (NetworkSettings (fleet_containers ! 1)) ''data'' = Some ''10.0.0.9'' \<and>
   IPAddress (NetworkSettings (fleet_containers ! 2)) = [] \<and>
   range_Networks fleet_deps (Networks (NetworkSettings (fleet_containers ! 2)))
     = [(''mgmt'', [])] \<and>
   Metadata (fleet_components ! 2) ''containerIPAddress'' = None"
proof -
  have len: "0 < length fleet_components" "1 < length fleet_components"
    "2 < length fleet_components"
    by (simp_all add: fleet_components_def)
  have entries:
    "map_of (range_Networks fleet_deps (Networks (NetworkSettings (fleet_containers ! 0))))
       = Networks (NetworkSettings (fleet_containers ! 0))"
    "map_of (range_Networks fleet_deps (Networks (NetworkSettings (fleet_containers ! 1))))
       = Networks (NetworkSettings (fleet_containers ! 1))"
    "map_of (range_Networks fleet_deps (Networks (NetworkSettings (fleet_containers ! 2))))
       = Networks (NetworkSettings (fleet_containers ! 2))"
    unfolding fleet_visits unfolding fleet_networks by (rule refl)+
  have once:
    "distinct (map fst (range_Networks fleet_deps
       (Networks (NetworkSettings (fleet_containers ! 0)))))"
    "distinct (map fst (range_Networks fleet_deps
       (Networks (NetworkSettings (fleet_containers ! 1)))))"
    "distinct (map fst (range_Networks fleet_deps
       (Networks (NetworkSettings (fleet_containers ! 2)))))"
    unfolding fleet_visits by simp_all
  have primary: "IPAddress (NetworkSettings (fleet_containers ! 0)) = ''172.17.0.2''"
    "IPAddress (NetworkSettings (fleet_containers ! 1)) = []"
    "IPAddress (NetworkSettings (fleet_containers ! 2)) = []"
    by (simp_all add: fleet_containers_def aux_container_def cnf_container_def
          solo_container_def)
  note at0 = GetComponents_containerIPAddress
    [OF fleet_inputs fleet_run len(1) entries(1) once(1), THEN conjunct1]
  note at1 = GetComponents_containerIPAddress
    [OF fleet_inputs fleet_run len(2) entries(2) once(2), THEN conjunct1]
  note at2 = GetComponents_containerIPAddress
    [OF fleet_inputs fleet_run len(3) entries(3) once(3), THEN conjunct1]
  from at0 have a0: "Metadata (fleet_components ! 0) ''containerIPAddress'' = Some ''172.17.0.2''"
    unfolding primary by simp
  from at1 have a1: "Metadata (fleet_components ! 1) ''containerIPAddress'' = Some ''10.0.0.9''"
    unfolding primary fleet_visits by simp
  from at2 have a2: "Metadata (fleet_components ! 2) ''containerIPAddress'' = None"
    unfolding primary fleet_visits by simp
  have data: "Networks (NetworkSettings (fleet_containers ! 1)) ''data'' = Some ''10.0.0.9''"
    unfolding fleet_networks by simp
  show ?thesis
    by (intro conjI fleet_inputs fleet_run primary a0 fleet_visits(2) a1 data fleet_visits(3) a2)
qed

text \<open>
  C6, as the spec has it, fails: the networks of a container have no given order. The
  container at index 1 of the fleet has no primary address and two networks with an
  address. Two runtimes that visit exactly the entries of its map, each once, in different
  orders give its component the address \<open>10.0.0.9\<close> and the address \<open>10.0.0.10\<close>.
\<close>

theorem GetComponents_containerIPAddress_order:
  "discovery_inputs fleet_deps [] = Some (fleet_infos, fleet_containers) \<and>
   discovery_inputs reordered_deps [] = Some (fleet_infos, fleet_containers) \<and>
   IPAddress (NetworkSettings (fleet_containers ! 1)) = [] \<and>
   map_of (range_Networks fleet_deps (Networks (NetworkSettings (fleet_containers ! 1))))
     = Networks (NetworkSettings (fleet_containers ! 1)) \<and>
   distinct (map fst (range_Networks fleet_deps
     (Networks (NetworkSettings (fleet_containers ! 1))))) \<and>
   map_of (range_Networks reordered_deps (Networks (NetworkSettings (fleet_containers ! 1))))
     = Networks (NetworkSettings (fleet_containers ! 1)) \<and>
   distinct (map fst (range_Networks reordered_deps
     (Networks (NetworkSettings (fleet_containers ! 1))))) \<and>
   Metadata (fst (fst (GetComponents fleet_deps [])) ! 1) ''containerIPAddress''
     = Some ''10.0.0.9'' \<and>
   Metadata (fst (fst (GetComponents reordered_deps [])) ! 1) ''containerIPAddress''
     = Some ''10.0.0.10''"
proof -
  have inputs: "discovery_inputs reordered_deps [] = Some (fleet_infos, fleet_containers)"
    by (simp add: discovery_inputs_def StatusInfo_def reordered_deps_def fleet_deps_def
          fleet_containers_def)
  have primary: "IPAddress (NetworkSettings (fleet_containers ! 1)) = []"
    by (simp add: fleet_containers_def cnf_container_def)
  have visits: "range_Networks reordered_deps (Networks (NetworkSettings (fleet_containers ! 1)))
                  = [(''ext'', ''10.0.0.10''), (''data'', ''10.0.0.9''), (''mgmt'', [])]"
    by (simp add: reordered_deps_def visit_def fleet_containers_def cnf_container_def)
  have entries: "map_of (range_Networks fleet_deps
        (Networks (NetworkSettings (fleet_containers ! 1))))
      = Networks (NetworkSettings (fleet_containers ! 1))"
    unfolding fleet_visits unfolding fleet_networks by (rule refl)
  have once: "distinct (map fst (range_Networks fleet_deps
        (Networks (NetworkSettings (fleet_containers ! 1)))))"
    unfolding fleet_visits by simp
  have entries': "map_of (range_Networks reordered_deps
        (Networks (NetworkSettings (fleet_containers ! 1))))
      = Networks (NetworkSettings (fleet_containers ! 1))"
    unfolding visits unfolding fleet_networks by (rule ext) simp
  have once': "distinct (map fst (range_Networks reordered_deps
        (Networks (NetworkSettings (fleet_containers ! 1)))))"
    unfolding visits by simp
  have first: "Metadata (fst (fst (GetComponents fleet_deps [])) ! 1) ''containerIPAddress''
                 = Some ''10.0.0.9''"
    by (simp add: fleet_run fleet_components_def)
  have body: "component_body reordered_deps (cnfInfos_loop fleet_infos Map.empty)
                (fleet_containers ! 1)
              = Inr (fst (fst (GetComponents reordered_deps [])) ! 1)"
  proof -
    have aux: "component_body reordered_deps (cnfInfos_loop fleet_infos Map.empty) aux_container
                 = Inr (fleet_components ! 0)"
      by (simp add: component_body_def container_metadata_def aux_container_def
            fleet_components_def HasPrefix_def lookup_def)
    obtain compo where cnf:
      "component_body reordered_deps (cnfInfos_loop fleet_infos Map.empty) cnf_container
         = Inr compo"
      by (simp add: fleet_table component_body_def cnf_container_def HasPrefix_def
            TrimPrefix_def reordered_deps_def fleet_deps_def)
    obtain compo' where solo:
      "component_body reordered_deps (cnfInfos_loop fleet_infos Map.empty) solo_container
         = Inr compo'"
      by (simp add: fleet_table component_body_def solo_container_def HasPrefix_def
            TrimPrefix_def reordered_deps_def fleet_deps_def zero_Info_def)
    have "fst (GetComponents reordered_deps []) = ([fleet_components ! 0, compo, compo'], None)"
      by (simp add: GetComponents_run [OF inputs] fleet_containers_def aux cnf solo)
    with cnf show ?thesis
      by (simp add: fleet_containers_def)
  qed
  have meta: "Metadata (fst (fst (GetComponents reordered_deps [])) ! 1)
          = container_metadata reordered_deps (fleet_containers ! 1)"
    using body by (rule component_body_metadata)
  have "container_metadata reordered_deps (fleet_containers ! 1) ''containerIPAddress''
          = Some ''10.0.0.10''"
    unfolding container_metadata_def Let_def primary visits by simp
  then have second:
    "Metadata (fst (fst (GetComponents reordered_deps [])) ! 1) ''containerIPAddress''
       = Some ''10.0.0.10''"
    unfolding meta .
  show ?thesis
    by (intro conjI fleet_inputs inputs primary entries once entries' once' first second)
qed

subsection \<open>One component per container\<close>

text \<open>
  C7. When the call returns no error, the listing and every inspection have succeeded, the
  returned list is as long as the list of listed containers, and its i-th component is the
  one built from the container that the inspection of the i-th listed ID returned (it
  carries that container's ID).
\<close>

theorem GetComponents_one_per_container:
  assumes "fst (GetComponents c w) = (comps, None)"
  shows "\<exists>infos ids containers.
           listed_containers c w = Some ids \<and>
           discovery_inputs c w = Some (infos, containers) \<and>
           length containers = length ids \<and> length comps = length ids \<and>
           (\<forall>i < length ids.
              (\<exists>wi. fst (InspectContainerWithOptions c (ids ! i) wi) = Inr (containers ! i)) \<and>
              component_body c (cnfInfos_loop infos Map.empty) (containers ! i) = Inr (comps ! i) \<and>
              Metadata (comps ! i) ''containerID'' = Some (ID (containers ! i)))"
proof (cases "discovery_inputs c w")
  case None
  from GetComponents_no_inputs [OF this] assms show ?thesis
    by auto
next
  case (Some p)
  obtain infos containers where p: "p = (infos, containers)"
    by (cases p)
  with Some have inputs: "discovery_inputs c w = Some (infos, containers)"
    by simp
  from discovery_inputs_listed [OF inputs] obtain ids where
    ids: "listed_containers c w = Some ids" "length containers = length ids"
      "\<forall>i < length ids.
         \<exists>wi. fst (InspectContainerWithOptions c (ids ! i) wi) = Inr (containers ! i)"
    by blast
  from inputs assms
  have "components_loop c (cnfInfos_loop infos Map.empty) containers [] = (comps, None)"
    by (simp add: GetComponents_run)
  from components_loop_result [OF this]
  have len: "length comps = length containers"
    and body: "\<forall>i < length containers.
      component_body c (cnfInfos_loop infos Map.empty) (containers ! i) = Inr (comps ! i)"
    by auto
  have meta: "Metadata (comps ! i) ''containerID'' = Some (ID (containers ! i))"
    if "i < length containers" for i
  proof -
    from body that
    have "component_body c (cnfInfos_loop infos Map.empty) (containers ! i) = Inr (comps ! i)"
      by simp
    then have "Metadata (comps ! i) = container_metadata c (containers ! i)"
      by (rule component_body_metadata)
    then show ?thesis
      by (simp add: container_metadata_def Let_def networks_loop_find split: option.splits)
  qed
  have "\<forall>i < length ids.
      (\<exists>wi. fst (InspectContainerWithOptions c (ids ! i) wi) = Inr (containers ! i)) \<and>
      component_body c (cnfInfos_loop infos Map.empty) (containers ! i) = Inr (comps ! i) \<and>
      Metadata (comps ! i) ''containerID'' = Some (ID (containers ! i))"
    using ids(2,3) body meta by simp
  with inputs ids(1,2) len show ?thesis
    by (intro exI [of _ infos] exI [of _ ids] exI [of _ containers]) simp
qed

theorem GetComponents_one_per_container_witness:
  "fst (GetComponents fleet_deps []) = (fleet_components, None) \<and>
   listed_containers fleet_deps [] = Some [''c0'', ''c1'', ''c2''] \<and>
   discovery_inputs fleet_deps [] = Some (fleet_infos, fleet_containers) \<and>
   length fleet_components = length [''c0'', ''c1'', ''c2''] \<and>
   map (\<lambda>compo. Metadata compo ''containerID'') fleet_components
     = map Some [''c0'', ''c1'', ''c2'']"
proof -
  from GetComponents_one_per_container [OF fleet_run] obtain infos ids containers where
    run: "listed_containers fleet_deps [] = Some ids"
      "discovery_inputs fleet_deps [] = Some (infos, containers)"
      "length fleet_components = length ids"
    by blast
  from run(1) fleet_listed have "ids = [''c0'', ''c1'', ''c2'']"
    by simp
  with run(3) have len: "length fleet_components = length [''c0'', ''c1'', ''c2'']"
    by simp
  have ids: "map (\<lambda>compo. Metadata compo ''containerID'') fleet_components
          = map Some [''c0'', ''c1'', ''c2'']"
    by (simp add: fleet_components_def)
  show ?thesis
    by (intro conjI fleet_run fleet_listed fleet_inputs len ids)
qed

subsection \<open>The status table\<close>

text \<open>
  C8. When several fetched records carry the same label, the table maps the label to the
  last of them in fetch order, and every component whose container carries that label has
  that last record as info.
\<close>

theorem cnfInfos_last_write_wins:
  assumes "infos = pre @ r # post"
    and "\<forall>x \<in> set post. MsLabel x \<noteq> MsLabel r"
  shows "cnfInfos_loop infos Map.empty (MsLabel r) = Some r \<and>
         (\<forall>(c :: ('w, 'h) deps) w containers comps err i.
            discovery_inputs c w = Some (infos, containers) \<and>
            fst (GetComponents c w) = (comps, err) \<and> i < length comps \<and>
            containsPrefix (Env (Config (containers ! i))) ''MICROSERVICE_LABEL=''
              = (MsLabel r, True)
            \<longrightarrow> Info (comps ! i) = Some r)"
proof -
  from assms(2) have "find (\<lambda>i. MsLabel i = MsLabel r) (rev post) = None"
    by (simp add: find_None_iff)
  with assms(1) have tbl: "cnfInfos_loop infos Map.empty (MsLabel r) = Some r"
    by (simp add: cnfInfos_loop_last find_append_case)
  have "Info (comps ! i) = Some r"
    if "discovery_inputs c w = Some (infos, containers)"
      and "fst (GetComponents c w) = (comps, err)" and "i < length comps"
      and "containsPrefix (Env (Config (containers ! i))) ''MICROSERVICE_LABEL=''
             = (MsLabel r, True)"
    for c :: "('w, 'h) deps" and w containers comps err i
  proof -
    from GetComponents_component [OF that(1-3)]
    have "component_body c (cnfInfos_loop infos Map.empty) (containers ! i) = Inr (comps ! i)"
      by simp
    from component_body_matched [OF that(4) tbl this] show ?thesis
      by simp
  qed
  with tbl show ?thesis
    by blast
qed

theorem cnfInfos_last_write_wins_witness:
  "fleet_infos = [fleet_infos ! 0] @ (fleet_infos ! 1) # [] \<and>
   MsLabel (fleet_infos ! 0) = MsLabel (fleet_infos ! 1) \<and>
   IPAddr (fleet_infos ! 0) = ''10.0.0.4'' \<and> IPAddr (fleet_infos ! 1) = ''10.0.0.5'' \<and>
   cnfInfos_loop fleet_infos Map.empty ''cnf1'' = Some (fleet_infos ! 1) \<and>
   discovery_inputs fleet_deps [] = Some (fleet_infos, fleet_containers) \<and>
   fst (GetComponents fleet_deps []) = (fleet_components, None) \<and>
   containsPrefix (Env (Config (fleet_containers ! 1))) ''MICROSERVICE_LABEL='' = (''cnf1'', True) \<and>
   Info (fleet_components ! 1) = Some (fleet_infos ! 1)"
proof -
  have split: "fleet_infos = [fleet_infos ! 0] @ (fleet_infos ! 1) # []"
    by (simp add: fleet_infos_def)
  have later: "\<forall>x \<in> set []. MsLabel x \<noteq> MsLabel (fleet_infos ! 1)"
    by simp
  have label: "MsLabel (fleet_infos ! 1) = ''cnf1''" "MsLabel (fleet_infos ! 0) = ''cnf1''"
    "IPAddr (fleet_infos ! 0) = ''10.0.0.4''" "IPAddr (fleet_infos ! 1) = ''10.0.0.5''"
    by (simp_all add: fleet_infos_def)
  have len: "1 < length fleet_components"
    by (simp add: fleet_components_def)
  have env: "containsPrefix (Env (Config (fleet_containers ! 1))) ''MICROSERVICE_LABEL=''
               = (MsLabel (fleet_infos ! 1), True)"
    by (simp add: fleet_infos_def fleet_containers_def cnf_container_def HasPrefix_def
          TrimPrefix_def)
  note inst = cnfInfos_last_write_wins [OF split later]
  from inst [THEN conjunct1]
  have tbl: "cnfInfos_loop fleet_infos Map.empty ''cnf1'' = Some (fleet_infos ! 1)"
    unfolding label(1) .
  have info: "Info (fleet_components ! 1) = Some (fleet_infos ! 1)"
    by (rule inst [THEN conjunct2, rule_format,
          OF conjI [OF fleet_inputs conjI [OF fleet_run conjI [OF len env]]]])
  have same: "MsLabel (fleet_infos ! 0) = MsLabel (fleet_infos ! 1)"
    unfolding label ..
  have env': "containsPrefix (Env (Config (fleet_containers ! 1))) ''MICROSERVICE_LABEL=''
               = (''cnf1'', True)"
    using env unfolding label(1) .
  show ?thesis
    by (intro conjI split same label(3) label(4) tbl fleet_inputs fleet_run env' info)
qed

subsection \<open>The label of a container\<close>

text \<open>
  C10. When several environment entries start with the prefix, \<open>containsPrefix\<close> returns
  the rest of the first of them, whatever follows it; that rest is the key under which the
  loop body reads the status table.
\<close>

theorem containsPrefix_first_entry:
  assumes "\<forall>s \<in> set pre. \<not> prefix p s"
  shows "containsPrefix (pre @ (p @ label) # post) p = (label, True) \<and>
         (\<forall>(c :: ('w, 'h) deps) w infos containers comps err i.
            p = ''MICROSERVICE_LABEL='' \<and>
            discovery_inputs c w = Some (infos, containers) \<and>
            fst (GetComponents c w) = (comps, err) \<and> i < length comps \<and>
            Env (Config (containers ! i)) = pre @ (p @ label) # post
            \<longrightarrow> Info (comps ! i) = cnfInfos_loop infos Map.empty label)"
proof -
  have first: "containsPrefix (pre @ (p @ label) # post) p = (label, True)"
    using assms by (rule containsPrefix_first)
  have "Info (comps ! i) = cnfInfos_loop infos Map.empty label"
    if "p = ''MICROSERVICE_LABEL=''"
      and "discovery_inputs c w = Some (infos, containers)"
      and "fst (GetComponents c w) = (comps, err)" and "i < length comps"
      and "Env (Config (containers ! i)) = pre @ (p @ label) # post"
    for c :: "('w, 'h) deps" and w infos containers comps err i
  proof -
    from GetComponents_component [OF that(2-4)]
    have body: "component_body c (cnfInfos_loop infos Map.empty) (containers ! i) = Inr (comps ! i)"
      by simp
    from first that(1,5)
    have env: "containsPrefix (Env (Config (containers ! i))) ''MICROSERVICE_LABEL=''
                 = (label, True)"
      by simp
    show ?thesis
    proof (cases "cnfInfos_loop infos Map.empty label")
      case None
      from component_body_standalone [OF env None body] None show ?thesis
        by simp
    next
      case (Some e)
      from component_body_matched [OF env Some body] Some show ?thesis
        by simp
    qed
  qed
  with first show ?thesis
    by blast
qed

theorem containsPrefix_first_entry_witness:
  "Env (Config (fleet_containers ! 1))
     = [''PATH=/bin''] @ (''MICROSERVICE_LABEL='' @ ''cnf1'') # [''MICROSERVICE_LABEL=solo''] \<and>
   containsPrefix (Env (Config (fleet_containers ! 1))) ''MICROSERVICE_LABEL='' = (''cnf1'', True) \<and>
   discovery_inputs fleet_deps [] = Some (fleet_infos, fleet_containers) \<and>
   fst (GetComponents fleet_deps []) = (fleet_components, None) \<and>
   cnfInfos_loop fleet_infos Map.empty ''solo'' = None \<and>
   Info (fleet_components ! 1) = cnfInfos_loop fleet_infos Map.empty ''cnf1'' \<and>
   Info (fleet_components ! 1) = Some (fleet_infos ! 1)"
proof -
  have pre: "\<forall>s \<in> set [''PATH=/bin'']. \<not> prefix ''MICROSERVICE_LABEL='' s"
    by simp
  have env: "Env (Config (fleet_containers ! 1))
     = [''PATH=/bin''] @ (''MICROSERVICE_LABEL='' @ ''cnf1'') # [''MICROSERVICE_LABEL=solo'']"
    by (simp add: fleet_containers_def cnf_container_def)
  have len: "1 < length fleet_components"
    by (simp add: fleet_components_def)
  have tbl: "cnfInfos_loop fleet_infos Map.empty ''solo'' = None"
    "cnfInfos_loop fleet_infos Map.empty ''cnf1'' = Some (fleet_infos ! 1)"
    by (simp_all add: fleet_infos_def)
  note inst = containsPrefix_first_entry [OF pre, of "''cnf1''" "[''MICROSERVICE_LABEL=solo'']"]
  from inst [THEN conjunct1]
  have first: "containsPrefix (Env (Config (fleet_containers ! 1))) ''MICROSERVICE_LABEL=''
          = (''cnf1'', True)"
    unfolding env .
  have key: "Info (fleet_components ! 1) = cnfInfos_loop fleet_infos Map.empty ''cnf1''"
    by (rule inst [THEN conjunct2, rule_format,
          OF conjI [OF refl conjI [OF fleet_inputs conjI [OF fleet_run conjI [OF len env]]]]])
  from key have info: "Info (fleet_components ! 1) = Some (fleet_infos ! 1)"
    unfolding tbl(2) .
  show ?thesis
    by (intro conjI env first fleet_inputs fleet_run tbl(1) key info)
qed

subsection \<open>The status fetcher\<close>

text \<open>
  C9. \<open>StatusInfo\<close> makes one GET request, on the path \<open>/status/info\<close>: the world
  after the call is the world after that request. When the request fails, the call returns
  no records and an error that wraps the cause of the failure; when the body does not
  decode, it returns no records and a different error that wraps the decoder's error;
  otherwise it returns the decoded records and no error.
\<close>

theorem StatusInfo_contract:
  "snd (StatusInfo c w) = snd (http_get c ''/status/info'' w) \<and>
   (\<forall>cause. fst (http_get c ''/status/info'' w) = Inl cause \<longrightarrow>
      fst (StatusInfo c w) = ([], Some (Errorf ''HTTP request failed'' cause)) \<and>
      Unwrap (Errorf ''HTTP request failed'' cause) = Some cause) \<and>
   (\<forall>body cause. fst (http_get c ''/status/info'' w) = Inr body \<and>
      json_decode c body = Inl cause \<longrightarrow>
      fst (StatusInfo c w) = ([], Some (Errorf ''decoding reply failed'' cause)) \<and>
      Unwrap (Errorf ''decoding reply failed'' cause) = Some cause) \<and>
   (\<forall>body infos. fst (http_get c ''/status/info'' w) = Inr body \<and>
      json_decode c body = Inr infos \<longrightarrow>
      fst (StatusInfo c w) = (infos, None))"
  by (auto simp: StatusInfo_def split: prod.splits sum.splits)

theorem StatusInfo_contract_witness:
  "fst (http_get unreachable_deps ''/status/info'' []) = Inl (ErrorString ''connection refused'') \<and>
   fst (StatusInfo unreachable_deps [])
     = ([], Some (Errorf ''HTTP request failed'' (ErrorString ''connection refused''))) \<and>
   snd (StatusInfo unreachable_deps []) = [''GET /status/info''] \<and>
   fst (http_get garbled_deps ''/status/info'' []) = Inr ''[{'' \<and>
   json_decode garbled_deps ''[{'' = Inl (ErrorString ''unexpected end of JSON input'') \<and>
   fst (StatusInfo garbled_deps [])
     = ([], Some (Errorf ''decoding reply failed''
                    (ErrorString ''unexpected end of JSON input''))) \<and>
   fst (http_get fleet_deps ''/status/info'' []) = Inr ''cnf1,cnf1'' \<and>
   json_decode fleet_deps ''cnf1,cnf1'' = Inr fleet_infos \<and>
   fst (StatusInfo fleet_deps []) = (fleet_infos, None) \<and>
   snd (StatusInfo fleet_deps []) = [''GET /status/info'']"
proof -
  have get1: "fst (http_get unreachable_deps ''/status/info'' [])
                = Inl (ErrorString ''connection refused'')"
    and log1: "snd (http_get unreachable_deps ''/status/info'' []) = [''GET /status/info'']"
    by (simp_all add: unreachable_deps_def)
  have get2: "fst (http_get garbled_deps ''/status/info'' []) = Inr ''[{''"
    and dec2: "json_decode garbled_deps ''[{'' = Inl (ErrorString ''unexpected end of JSON input'')"
    by (simp_all add: garbled_deps_def fleet_deps_def)
  have get3: "fst (http_get fleet_deps ''/status/info'' []) = Inr ''cnf1,cnf1''"
    and dec3: "json_decode fleet_deps ''cnf1,cnf1'' = Inr fleet_infos"
    and log3: "snd (http_get fleet_deps ''/status/info'' []) = [''GET /status/info'']"
    by (simp_all add: fleet_deps_def)
  note failed = StatusInfo_contract [of unreachable_deps "[]"]
  note garbled = StatusInfo_contract [of garbled_deps "[]"]
  note fetched = StatusInfo_contract [of fleet_deps "[]"]
  from failed [THEN conjunct2, THEN conjunct1, rule_format, OF get1, THEN conjunct1]
  have r1: "fst (StatusInfo unreachable_deps [])
              = ([], Some (Errorf ''HTTP request failed'' (ErrorString ''connection refused'')))" .
  from failed [THEN conjunct1] log1
  have w1: "snd (StatusInfo unreachable_deps []) = [''GET /status/info'']"
    by (rule trans)
  from garbled [THEN conjunct2, THEN conjunct2, THEN conjunct1, rule_format,
      OF conjI [OF get2 dec2], THEN conjunct1]
  have r2: "fst (StatusInfo garbled_deps [])
              = ([], Some (Errorf ''decoding reply failed''
                             (ErrorString ''unexpected end of JSON input'')))" .
  from fetched [THEN conjunct2, THEN conjunct2, THEN conjunct2, rule_format,
      OF conjI [OF get3 dec3]]
  have r3: "fst (StatusInfo fleet_deps []) = (fleet_infos, None)" .
  from fetched [THEN conjunct1] log3
  have w3: "snd (StatusInfo fleet_deps []) = [''GET /status/info'']"
    by (rule trans)
  show ?thesis
    by (intro conjI get1 r1 w1 get2 dec2 r2 get3 dec3 r3 w3)
qed

subsection \<open>The agent client of a Standalone component\<close>

text \<open>
  C2 on the fleet. The container at index 2 carries the label \<open>solo\<close> and the status
  table has no entry for it, so its component has mode Standalone. The claim gives such a
  component no agent client; the loop body leaves the \<^verbatim>\<open>else\<close> branch for the call of
  the constructor with the zero value of the failed lookup, and the component carries the
  agent client constructed for the empty host and port 0.
\<close>

theorem GetComponents_standalone_has_client:
  "discovery_inputs fleet_deps [] = Some (fleet_infos, fleet_containers) \<and>
   fst (GetComponents fleet_deps []) = (fleet_components, None) \<and>
   containsPrefix (Env (Config (fleet_containers ! 2))) ''MICROSERVICE_LABEL='' = (''solo'', True) \<and>
   cnfInfos_loop fleet_infos Map.empty ''solo'' = None \<and>
   Mode (fleet_components ! 2) = ComponentStandalone \<and>
   agentclient (fleet_components ! 2) = Some ([], 0) \<and>
   NewClientWithOpts fleet_deps [] 0 = Inr ([], 0)"
  using fleet_inputs fleet_run
  by (simp add: fleet_containers_def solo_container_def HasPrefix_def TrimPrefix_def
        fleet_infos_def fleet_components_def fleet_deps_def)

subsection \<open>A refused agent client\<close>

lemma refusing_inputs: "discovery_inputs refusing_deps [] = Some (fleet_infos, fleet_containers)"
  by (simp add: discovery_inputs_def StatusInfo_def refusing_deps_def fleet_deps_def
        fleet_containers_def)

text \<open>
  C1 on the fleet when the constructor of agent clients refuses every host: the three
  containers are inspected, the call returns the error of the constructor, and with it the
  list of the one component built before the failure.
\<close>

theorem GetComponents_refused_partial_list:
  "discovery_inputs refusing_deps [] = Some (fleet_infos, fleet_containers) \<and>
   length fleet_containers = 3 \<and>
   fst (GetComponents refusing_deps []) = ([fleet_components ! 0], Some (ErrorString ''bad host''))"
proof -
  have aux: "component_body refusing_deps (cnfInfos_loop fleet_infos Map.empty) aux_container
               = Inr (fleet_components ! 0)"
    by (simp add: component_body_def container_metadata_def aux_container_def
          fleet_components_def HasPrefix_def lookup_def)
  have cnf: "component_body refusing_deps (cnfInfos_loop fleet_infos Map.empty) cnf_container
               = Inl (ErrorString ''bad host'')"
    by (simp add: fleet_table component_body_def cnf_container_def HasPrefix_def TrimPrefix_def
          refusing_deps_def)
  have "fst (GetComponents refusing_deps [])
          = ([fleet_components ! 0], Some (ErrorString ''bad host''))"
    by (simp add: GetComponents_run [OF refusing_inputs] fleet_containers_def aux cnf)
  with refusing_inputs show ?thesis
    by (simp add: fleet_containers_def)
qed

end
